theory Spec2Isabelle
  imports Complex_Main
begin

section \<open>The EC2 virtual-machine registry of the recommender\<close>

text \<open>
  A shallow embedding of the Go package \<^verbatim>\<open>recommender\<close> (the file that declares
  \<^verbatim>\<open>Ec2VmRegistry\<close>) and of the HTTP handler \<^verbatim>\<open>recommendClusterSetup\<close> of
  \<^verbatim>\<open>internal/app/telescopes/api/routes.go\<close>.

  Conventions of the embedding.
  \<^item> A finite \<^verbatim>\<open>float64\<close> is a real number, and the type is read as \<^typ>\<open>real\<close>. The
    operations on it that round are not the operations of the real numbers: the addition
    and the division of \<^verbatim>\<open>getCurrentSpotPrices\<close> are the parameters \<open>float64_add\<close> and
    \<open>float64_div\<close>, of which nothing is assumed. The literal 99, the zero value and the
    conversion \<^verbatim>\<open>float64(len(zones))\<close> are exact.
  \<^item> A Go function returning \<^verbatim>\<open>(T, error)\<close> returns \<open>error + T\<close>, with \<open>Inl\<close> for a
    non-nil error.
  \<^item> Every call that leaves the process (product catalogue, AWS EC2, Prometheus, the
    recommendation engine) is recorded, in program order, in a list of calls returned
    beside the result. Logging is left out.
  \<^item> What those calls answer is a parameter: the fields of the record
    \<open>Ec2VmRegistry\<close> are the answers of the services the Go struct of that name holds
    clients for, together with \<^verbatim>\<open>strconv.ParseFloat\<close>, \<^verbatim>\<open>time.Now\<close> and the two
    \<^verbatim>\<open>float64\<close> operations.
  \<^item> The AWS SDK hands out its response fields as pointers; the model takes them as
    set, as the EC2 API documents them. The Prometheus query is an \<^verbatim>\<open>avg(...)\<close>
    aggregation, whose value is an instant vector, so the type assertion
    \<^verbatim>\<open>result.(model.Vector)\<close> holds and the model takes the result as that vector.
\<close>

subsection \<open>Data\<close>

type_synonym float64 = real
type_synonym time = nat

datatype error = errors_New string

text \<open>\<^verbatim>\<open>pi.Ec2Vm\<close>, an entry of the product catalogue, and \<^verbatim>\<open>VirtualMachine\<close>, what the
  registry returns; both are declared in files that are not part of the sources covered
  here and are known by the fields \<^verbatim>\<open>findVmsWithCpuUnits\<close> reads and writes.\<close>

record Ec2Vm =
  Ec2Vm_Type :: string
  Ec2Vm_OnDemandPrice :: float64
  Ec2Vm_Cpus :: float64
  Ec2Vm_Mem :: float64
  Ec2Vm_Gpus :: float64

record VirtualMachine =
  Type :: string
  OnDemandPrice :: float64
  AvgPrice :: float64
  Cpus :: float64
  Mem :: float64
  Gpus :: float64

text \<open>\<^verbatim>\<open>ec2.AvailabilityZone\<close> and \<^verbatim>\<open>ec2.SpotPrice\<close> of the AWS SDK, by the fields read.\<close>

record ec2_AvailabilityZone =
  State :: string
  ZoneName :: string

record ec2_SpotPrice =
  AvailabilityZone :: string
  InstanceType :: string
  SpotPrice :: string

text \<open>\<^verbatim>\<open>ec2.DescribeSpotPriceHistoryInput\<close>: the three fields the code sets, and
  \<^verbatim>\<open>EndTime\<close>, which it leaves unset.\<close>

record DescribeSpotPriceHistoryInput =
  StartTime :: time
  EndTime :: "time option"
  ProductDescriptions :: "string list"
  InstanceTypes :: "string list"

text \<open>The type \<^verbatim>\<open>SpotPrice\<close> local to \<^verbatim>\<open>getCurrentSpotPrices\<close>.\<close>

record SpotPrice_local =
  AZ :: string
  Price :: float64

text \<open>A \<^verbatim>\<open>model.Vector\<close> of Prometheus: what \<^verbatim>\<open>String()\<close> renders it as, and for each
  sample what \<^verbatim>\<open>Value.String()\<close> renders. No relation between the two is assumed.\<close>

record model_Vector =
  Vector_String :: string
  Value_Strings :: "string list"

text \<open>\<^verbatim>\<open>context.Background()\<close> is the only context the code builds; it has no deadline.\<close>

datatype Context = Background

fun Deadline :: "Context \<Rightarrow> time option" where
  "Deadline Background = None"

datatype call =
    GetVmsWithCpu_call string float64
  | GetAttrValues_call
  | DescribeAvailabilityZones_call string
  | Query_call Context string time
  | DescribeSpotPriceHistory_call string DescribeSpotPriceHistoryInput

record Ec2VmRegistry =
  GetVmsWithCpu :: "string \<Rightarrow> float64 \<Rightarrow> error + Ec2Vm list"
  GetAttrValues :: "error + float64 list"
  DescribeAvailabilityZones :: "string \<Rightarrow> error + ec2_AvailabilityZone list"
  DescribeSpotPriceHistory ::
    "string \<Rightarrow> DescribeSpotPriceHistoryInput \<Rightarrow> error + ec2_SpotPrice list"
  prometheus :: "(string \<Rightarrow> time \<Rightarrow> error + model_Vector) option"
  ParseFloat :: "string \<Rightarrow> nat \<Rightarrow> error + float64"
  Now :: time
  float64_add :: "float64 \<Rightarrow> float64 \<Rightarrow> float64"
  float64_div :: "float64 \<Rightarrow> float64 \<Rightarrow> float64"

type_synonym 'a io = "call list \<times> (error + 'a)"

text \<open>Sequencing: the second step runs only when the first returned no error, and its
  calls follow those of the first.\<close>

definition andThen :: "'a io \<Rightarrow> ('a \<Rightarrow> 'b io) \<Rightarrow> 'b io" where
  "andThen m f =
     (case snd m of
        Inl err \<Rightarrow> (fst m, Inl err)
      | Inr x \<Rightarrow> (fst m @ fst (f x), snd (f x)))"

subsection \<open>The Prometheus query\<close>

text \<open>\<^verbatim>\<open>strings.Join\<close>.\<close>

fun Join :: "string list \<Rightarrow> string \<Rightarrow> string" where
  "Join [] sep = []"
| "Join [x] sep = x"
| "Join (x # y # ys) sep = x @ sep @ Join (y # ys) sep"

text \<open>\<^verbatim>\<open>fmt.Sprintf(promQuery, region, it, zs)\<close>: the format string of the constant
  \<^verbatim>\<open>promQuery\<close> with its three \<^verbatim>\<open>%s\<close> filled in.\<close>

definition promQuery :: "string \<Rightarrow> string \<Rightarrow> string \<Rightarrow> string" where
  \<open>promQuery region it zs =
     ''avg(avg_over_time(aws_spot_current_price{region="'' @ region @
     ''", instance_type="'' @ it @
     ''", availability_zone=~"'' @ zs @
     ''", product_description="Linux/UNIX"}[24h]))''\<close>

text \<open>The error of lines 144 and 155; its text names the metric between single quotes.\<close>

definition metricEmpty :: error where
  "metricEmpty =
     errors_New (CHR 0x27 # ''aws_spot_current_price'' @ CHR 0x27 # '' metric is empty'')"

text \<open>\<^verbatim>\<open>getSpotPriceAvgsFromPrometheus\<close>: the loop over the instance types, with the map
  filled so far. The client \<open>api\<close> is \<^verbatim>\<open>e.prometheus\<close>, which the caller has found
  non-nil.\<close>

fun promLoop ::
  "Ec2VmRegistry \<Rightarrow> (string \<Rightarrow> time \<Rightarrow> error + model_Vector) \<Rightarrow> string \<Rightarrow> string list
     \<Rightarrow> string list \<Rightarrow> (string \<rightharpoonup> float64) \<Rightarrow> (string \<rightharpoonup> float64) io" where
  "promLoop e api region zones [] avgSpotPrices = ([], Inr avgSpotPrices)"
| "promLoop e api region zones (it # its) avgSpotPrices =
     (let query = promQuery region it (Join zones ''|'');
          c = Query_call Background query (Now e)
      in case api query (Now e) of
           Inl err \<Rightarrow> ([c], Inl err)
         | Inr result \<Rightarrow>
             if Vector_String result = [] then
               ([c], Inl metricEmpty)
             else
               (case Value_Strings result of
                  [] \<Rightarrow> ([c], Inl metricEmpty)
                | v # _ \<Rightarrow>
                    (case ParseFloat e v 64 of
                       Inl err \<Rightarrow> ([c], Inl err)
                     | Inr avgPrice \<Rightarrow>
                         andThen ([c], Inr ())
                           (\<lambda>_. promLoop e api region zones its
                                  (avgSpotPrices(it \<mapsto> avgPrice))))))"

definition getSpotPriceAvgsFromPrometheus ::
  "Ec2VmRegistry \<Rightarrow> (string \<Rightarrow> time \<Rightarrow> error + model_Vector) \<Rightarrow> string \<Rightarrow> string list
     \<Rightarrow> string list \<Rightarrow> (string \<rightharpoonup> float64) io" where
  "getSpotPriceAvgsFromPrometheus e api region zones instanceTypes =
     promLoop e api region zones instanceTypes Map.empty"

subsection \<open>The direct spot-price history\<close>

text \<open>The inner loop of lines 199 to 204: every element of \<open>zones\<close> equal to the entry's
  zone appends the price once more (the \<^verbatim>\<open>continue\<close> ends one iteration of this inner
  loop, not the loop).\<close>

fun matchZones ::
  "string list \<Rightarrow> ec2_SpotPrice \<Rightarrow> float64 \<Rightarrow> (string \<rightharpoonup> SpotPrice_local list)
     \<Rightarrow> (string \<rightharpoonup> SpotPrice_local list)" where
  "matchZones [] priceEntry spotPrice spotPrices = spotPrices"
| "matchZones (v # vs) priceEntry spotPrice spotPrices =
     matchZones vs priceEntry spotPrice
       (if v = AvailabilityZone priceEntry then
          spotPrices(InstanceType priceEntry \<mapsto>
            (case spotPrices (InstanceType priceEntry) of None \<Rightarrow> [] | Some ps \<Rightarrow> ps)
              @ [\<lparr>AZ = AvailabilityZone priceEntry, Price = spotPrice\<rparr>])
        else spotPrices)"

text \<open>The loop of lines 194 to 205 over the history entries.\<close>

fun collectSpotPrices ::
  "Ec2VmRegistry \<Rightarrow> string list \<Rightarrow> ec2_SpotPrice list \<Rightarrow> (string \<rightharpoonup> SpotPrice_local list)
     \<Rightarrow> error + (string \<rightharpoonup> SpotPrice_local list)" where
  "collectSpotPrices e zones [] spotPrices = Inr spotPrices"
| "collectSpotPrices e zones (priceEntry # rest) spotPrices =
     (case ParseFloat e (SpotPrice priceEntry) 32 of
        Inl err \<Rightarrow> Inl err
      | Inr spotPrice \<Rightarrow>
          collectSpotPrices e zones rest (matchZones zones priceEntry spotPrice spotPrices))"

text \<open>The loop of lines 207 to 217. Go visits the keys of \<open>spotPrices\<close> in no fixed
  order; each key is treated on its own, so the resulting map is given key by key. The
  sum starts at the zero value and adds the prices in the order of the slice, with the
  \<^verbatim>\<open>float64\<close> addition; the quotient is the \<^verbatim>\<open>float64\<close> division. A key of \<open>spotPrices\<close>
  holds at least one price, so the division is never by zero.\<close>

definition sumPrice :: "Ec2VmRegistry \<Rightarrow> SpotPrice_local list \<Rightarrow> float64" where
  "sumPrice e prices = foldl (\<lambda>s p. float64_add e s (Price p)) 0 prices"

definition zoneAvgs ::
  "Ec2VmRegistry \<Rightarrow> string list \<Rightarrow> (string \<rightharpoonup> SpotPrice_local list)
     \<Rightarrow> (string \<rightharpoonup> float64)" where
  "zoneAvgs e zones spotPrices =
     (\<lambda>vmType. case spotPrices vmType of
                  None \<Rightarrow> None
                | Some prices \<Rightarrow>
                    if length prices \<noteq> length zones then None
                    else Some (float64_div e (sumPrice e prices) (real (length zones))))"

definition historyInput :: "Ec2VmRegistry \<Rightarrow> string list \<Rightarrow> DescribeSpotPriceHistoryInput" where
  "historyInput e instanceTypes =
     \<lparr>StartTime = Now e, EndTime = None, ProductDescriptions = [''Linux/UNIX''],
      InstanceTypes = instanceTypes\<rparr>"

definition getCurrentSpotPrices ::
  "Ec2VmRegistry \<Rightarrow> string \<Rightarrow> string list \<Rightarrow> string list \<Rightarrow> (string \<rightharpoonup> float64) io" where
  "getCurrentSpotPrices e region zones instanceTypes =
     (let input = historyInput e instanceTypes;
          c = DescribeSpotPriceHistory_call region input
      in case DescribeSpotPriceHistory e region input of
           Inl err \<Rightarrow> ([c], Inl err)
         | Inr history \<Rightarrow>
             (case collectSpotPrices e zones history Map.empty of
                Inl err \<Rightarrow> ([c], Inl err)
              | Inr spotPrices \<Rightarrow> ([c], Inr (zoneAvgs e zones spotPrices))))"

subsection \<open>The candidate lookup\<close>

definition getAvailableCpuUnits :: "Ec2VmRegistry \<Rightarrow> float64 list io" where
  "getAvailableCpuUnits e =
     (case GetAttrValues e of
        Inl err \<Rightarrow> ([GetAttrValues_call], Inl err)
      | Inr cpuValues \<Rightarrow> ([GetAttrValues_call], Inr cpuValues))"

text \<open>Lines 69 to 77: the catalogue entry as a \<^verbatim>\<open>VirtualMachine\<close>, its spot price set to
  the constant 99.\<close>

definition newVm :: "Ec2Vm \<Rightarrow> VirtualMachine" where
  "newVm ec2vm =
     \<lparr>Type = Ec2Vm_Type ec2vm, OnDemandPrice = Ec2Vm_OnDemandPrice ec2vm, AvgPrice = 99,
      Cpus = Ec2Vm_Cpus ec2vm, Mem = Ec2Vm_Mem ec2vm, Gpus = Ec2Vm_Gpus ec2vm\<rparr>"

text \<open>Lines 64 to 80: the loop over the vCPU values, with the list built so far.\<close>

fun collectVms ::
  "Ec2VmRegistry \<Rightarrow> string \<Rightarrow> float64 list \<Rightarrow> VirtualMachine list \<Rightarrow> VirtualMachine list io" where
  "collectVms e region [] vms = ([], Inr vms)"
| "collectVms e region (cpu # cpus) vms =
     (case GetVmsWithCpu e region cpu of
        Inl err \<Rightarrow> ([GetVmsWithCpu_call region cpu], Inl err)
      | Inr ec2Vms \<Rightarrow>
          andThen ([GetVmsWithCpu_call region cpu], Inr ())
            (\<lambda>_. collectVms e region cpus (vms @ map newVm ec2Vms)))"

text \<open>Lines 86 to 101. A nil and an empty slice are both the empty list.\<close>

definition availableZones :: "ec2_AvailabilityZone list \<Rightarrow> string list" where
  "availableZones azs = map ZoneName (filter (\<lambda>az. State az = ''available'') azs)"

definition resolveZones :: "Ec2VmRegistry \<Rightarrow> string \<Rightarrow> string list \<Rightarrow> string list io" where
  "resolveZones e region zones =
     (if length zones = 0 then
        (case DescribeAvailabilityZones e region of
           Inl err \<Rightarrow> ([DescribeAvailabilityZones_call region], Inl err)
         | Inr azs \<Rightarrow> ([DescribeAvailabilityZones_call region], Inr (zones @ availableZones azs)))
      else ([], Inr zones))"

text \<open>Lines 103 to 122: Prometheus when a client is configured, the direct history when
  it is not or when Prometheus gave an error. \<open>pricesParsed\<close> is the flag of the code.\<close>

definition resolveSpotPrices ::
  "Ec2VmRegistry \<Rightarrow> string \<Rightarrow> string list \<Rightarrow> string list \<Rightarrow> (string \<rightharpoonup> float64) io" where
  "resolveSpotPrices e region zones instanceTypes =
     (let (calls, avgSpotPrices, pricesParsed) =
            (case prometheus e of
               None \<Rightarrow> ([], Map.empty, False)
             | Some api \<Rightarrow>
                 (case getSpotPriceAvgsFromPrometheus e api region zones instanceTypes of
                    (cs, Inl err) \<Rightarrow> (cs, Map.empty, False)
                  | (cs, Inr zoneAvgSpotPrices) \<Rightarrow> (cs, zoneAvgSpotPrices, True)))
      in if prometheus e = None \<or> \<not> pricesParsed then
           andThen (calls, Inr ()) (\<lambda>_. getCurrentSpotPrices e region zones instanceTypes)
         else (calls, Inr avgSpotPrices))"

text \<open>Lines 124 to 128.\<close>

definition setAvgPrice :: "(string \<rightharpoonup> float64) \<Rightarrow> VirtualMachine \<Rightarrow> VirtualMachine" where
  "setAvgPrice avgSpotPrices vm =
     (case avgSpotPrices (Type vm) of
        Some currentPrice \<Rightarrow> vm\<lparr>AvgPrice := currentPrice\<rparr>
      | None \<Rightarrow> vm)"

definition findVmsWithCpuUnits ::
  "Ec2VmRegistry \<Rightarrow> string \<Rightarrow> string list \<Rightarrow> float64 list \<Rightarrow> VirtualMachine list io" where
  "findVmsWithCpuUnits e region zones cpuUnits =
     andThen (collectVms e region cpuUnits []) (\<lambda>vms.
       let instanceTypes = map Type vms in
       andThen (resolveZones e region zones) (\<lambda>zones.
         andThen (resolveSpotPrices e region zones instanceTypes) (\<lambda>avgSpotPrices.
           ([], Inr (map (setAvgPrice avgSpotPrices) vms)))))"

text \<open>What one pass of the loop of \<^verbatim>\<open>getSpotPriceAvgsFromPrometheus\<close> sends, and when
  it goes on to the next instance type: the query gave no error, the vector renders as a
  non-empty text, has a first sample, and that sample's value parses.\<close>

definition queryOf :: "Ec2VmRegistry \<Rightarrow> string \<Rightarrow> string list \<Rightarrow> string \<Rightarrow> call" where
  "queryOf e region zones it =
     Query_call Background (promQuery region it (Join zones ''|'')) (Now e)"

definition accepted ::
  "Ec2VmRegistry \<Rightarrow> (string \<Rightarrow> time \<Rightarrow> error + model_Vector) \<Rightarrow> string \<Rightarrow> string list
     \<Rightarrow> string \<Rightarrow> bool" where
  "accepted e api region zones it =
     (case api (promQuery region it (Join zones ''|'')) (Now e) of
        Inl err \<Rightarrow> False
      | Inr result \<Rightarrow>
          Vector_String result \<noteq> [] \<and>
          (case Value_Strings result of
             [] \<Rightarrow> False
           | v # _ \<Rightarrow> (case ParseFloat e v 64 of Inl err \<Rightarrow> False | Inr avgPrice \<Rightarrow> True)))"




text \<open>The calls that ask for prices.\<close>

fun isPricingCall :: "call \<Rightarrow> bool" where
  "isPricingCall (Query_call ctx query ts) = True"
| "isPricingCall (DescribeSpotPriceHistory_call region input) = True"
| "isPricingCall c = False"

section \<open>The recommendation endpoint\<close>

text \<open>\<^verbatim>\<open>recommendClusterSetup\<close> of \<^verbatim>\<open>routes.go\<close>. The request type
  \<^verbatim>\<open>ClusterRecommendationReq\<close>, the response type and the engine are declared in the
  package \<^verbatim>\<open>recommender\<close>, in files that are not part of the sources covered here: the
  handler is modelled over any request type \<open>'q\<close> and response type \<open>'r\<close>, with
  \<^verbatim>\<open>c.BindJSON\<close> and
  \<^verbatim>\<open>engine.RecommendCluster\<close> as parameters. \<^verbatim>\<open>BindJSON\<close> fills a
  \<^verbatim>\<open>RequestWrapper\<close> that already holds provider and region, so it is given both.\<close>

datatype json = JString string | JNumber int

datatype 'r body = H "(string \<times> json) list" | Recommendation 'r

record 'r Response =
  status :: int
  content :: "'r body"

datatype 'q engine_call = RecommendCluster_call string string 'q

definition StatusBadRequest :: int where "StatusBadRequest = 400"
definition StatusInternalServerError :: int where "StatusInternalServerError = 500"
definition StatusOK :: int where "StatusOK = 200"

fun Error :: "error \<Rightarrow> string" where
  "Error (errors_New text) = text"

definition recommendClusterSetup ::
  "(string \<Rightarrow> string \<Rightarrow> string \<Rightarrow> error + 'q) \<Rightarrow> (string \<Rightarrow> string \<Rightarrow> 'q \<Rightarrow> error + 'r)
     \<Rightarrow> string \<Rightarrow> string \<Rightarrow> string \<Rightarrow> 'q engine_call list \<times> 'r Response" where
  "recommendClusterSetup BindJSON RecommendCluster provider region requestBody =
     (case BindJSON provider region requestBody of
        Inl err \<Rightarrow>
          ([], \<lparr>status = StatusBadRequest,
                content = H [(''code'', JString ''bad_params''),
                             (''message'', JString ''invalid zone(s) or network performance''),
                             (''cause'', JString (Error err))]\<rparr>)
      | Inr req \<Rightarrow>
          (case RecommendCluster provider region req of
             Inl err \<Rightarrow>
               ([RecommendCluster_call provider region req],
                \<lparr>status = StatusInternalServerError,
                 content = H [(''status'', JNumber StatusInternalServerError),
                              (''message'', JString (Error err))]\<rparr>)
           | Inr response \<Rightarrow>
               ([RecommendCluster_call provider region req],
                \<lparr>status = StatusOK, content = Recommendation response\<rparr>)))"

text \<open>The key of a \<^verbatim>\<open>gin.H\<close> body, when the body is one.\<close>

fun field :: "'r body \<Rightarrow> string \<Rightarrow> json option" where
  "field (H kvs) k = map_of kvs k"
| "field (Recommendation r) k = None"

section \<open>Parts modelled from the specification\<close>

text \<open>Modelled from the spec: \<^verbatim>\<open>productInfo.GetVmsWithCpu\<close> of the package
  \<^verbatim>\<open>ec2_productinfo\<close>, which is not part of the sources covered here. The specification
  has the catalogue hold the instance types of a region with their static attributes, and a
  candidate's vCPU count match a requested vCPU value exactly; a catalogue that cannot
  be reached gives an error.\<close>

definition productInfo_GetVmsWithCpu ::
  "(string \<Rightarrow> error + Ec2Vm list) \<Rightarrow> string \<Rightarrow> float64 \<Rightarrow> error + Ec2Vm list" where
  "productInfo_GetVmsWithCpu catalog region cpu =
     (case catalog region of
        Inl err \<Rightarrow> Inl err
      | Inr vms \<Rightarrow> Inr (filter (\<lambda>vm. Ec2Vm_Cpus vm = cpu) vms))"

text \<open>Modelled from the spec: the request of a recommendation and its validation on
  binding, which the struct tags of \<^verbatim>\<open>ClusterRecommendationReq\<close> decide and which are not
  part of the sources covered here. The specification gives the request a zone set, the target
  vCPU and memory, inclusive node-count bounds and an on-demand ratio, with the
  invariant min \<open>\<le>\<close> max and 0 \<open>\<le>\<close> ratio \<open>\<le>\<close> 1, and has a request that breaks it rejected
  as invalid. \<open>decode\<close> is the JSON decoding.\<close>

record RecommendationRequest =
  ZoneSet :: "string list"
  TargetVCPU :: real
  TargetMemory :: real
  MinNodes :: int
  MaxNodes :: int
  OnDemandRatio :: real

definition boundViolation :: "RecommendationRequest \<Rightarrow> bool" where
  "boundViolation req \<longleftrightarrow>
     MinNodes req > MaxNodes req \<or> OnDemandRatio req < 0 \<or> OnDemandRatio req > 1"

definition BindJSON_validating ::
  "(string \<Rightarrow> error + RecommendationRequest) \<Rightarrow> string \<Rightarrow> string \<Rightarrow> string
     \<Rightarrow> error + RecommendationRequest" where
  "BindJSON_validating decode provider region requestBody =
     (case decode requestBody of
        Inl err \<Rightarrow> Inl err
      | Inr req \<Rightarrow> if boundViolation req then Inl (errors_New ''InvalidRequest'') else Inr req)"

section \<open>Example registries and requests\<close>

text \<open>A catalogue of two instance types, two zones of which one is available, a number
  parser that knows three numerals, and the arithmetic of the real numbers, which is
  that of \<^verbatim>\<open>float64\<close> on the small whole numbers of the examples.\<close>

definition parseNumeral :: "string \<Rightarrow> nat \<Rightarrow> error + float64" where
  "parseNumeral s bitSize =
     (if s = ''1'' then Inr 1 else if s = ''3'' then Inr 3 else if s = ''5'' then Inr 5
      else Inl (errors_New ''invalid syntax''))"

definition exampleCatalog :: "Ec2Vm list" where
  "exampleCatalog =
     [\<lparr>Ec2Vm_Type = ''m'', Ec2Vm_OnDemandPrice = 7, Ec2Vm_Cpus = 2, Ec2Vm_Mem = 8,
       Ec2Vm_Gpus = 0\<rparr>,
      \<lparr>Ec2Vm_Type = ''c'', Ec2Vm_OnDemandPrice = 9, Ec2Vm_Cpus = 4, Ec2Vm_Mem = 8,
       Ec2Vm_Gpus = 0\<rparr>]"

definition exampleZones :: "ec2_AvailabilityZone list" where
  "exampleZones =
     [\<lparr>State = ''available'', ZoneName = ''a''\<rparr>, \<lparr>State = ''impaired'', ZoneName = ''b''\<rparr>]"

definition exampleRegistry ::
  "(string \<Rightarrow> time \<Rightarrow> error + model_Vector) option \<Rightarrow> error + ec2_SpotPrice list
     \<Rightarrow> Ec2VmRegistry" where
  "exampleRegistry prom history =
     \<lparr>GetVmsWithCpu = (\<lambda>region cpu. Inr (filter (\<lambda>vm. Ec2Vm_Cpus vm = cpu) exampleCatalog)),
      GetAttrValues = Inr [2, 4],
      DescribeAvailabilityZones = (\<lambda>region. Inr exampleZones),
      DescribeSpotPriceHistory = (\<lambda>region input. history),
      prometheus = prom,
      ParseFloat = parseNumeral,
      Now = 0,
      float64_add = (+),
      float64_div = (/)\<rparr>"

text \<open>The same registry in an account that may not list the zones.\<close>

definition registryWithoutZones :: Ec2VmRegistry where
  "registryWithoutZones =
     (exampleRegistry None (Inl (errors_New ''RequestError'')))
       \<lparr>DescribeAvailabilityZones := (\<lambda>region. Inl (errors_New ''UnauthorizedOperation''))\<rparr>"

text \<open>The two catalogue entries as \<^verbatim>\<open>findVmsWithCpuUnits\<close> first builds them.\<close>

definition exampleVms :: "VirtualMachine list" where
  "exampleVms =
     [\<lparr>Type = ''m'', OnDemandPrice = 7, AvgPrice = 99, Cpus = 2, Mem = 8, Gpus = 0\<rparr>,
      \<lparr>Type = ''c'', OnDemandPrice = 9, AvgPrice = 99, Cpus = 4, Mem = 8, Gpus = 0\<rparr>]"

text \<open>Two answers of the provider's history: one sample of \<open>m\<close> in each of the zones
  \<open>a\<close> and \<open>b\<close>; two samples of \<open>m\<close> in zone \<open>a\<close> and none in \<open>b\<close>. And a failure.\<close>

definition samplesBothZones :: "ec2_SpotPrice list" where
  "samplesBothZones =
     [\<lparr>AvailabilityZone = ''a'', InstanceType = ''m'', SpotPrice = ''1''\<rparr>,
      \<lparr>AvailabilityZone = ''b'', InstanceType = ''m'', SpotPrice = ''3''\<rparr>]"

definition samplesOneZoneTwice :: "ec2_SpotPrice list" where
  "samplesOneZoneTwice =
     [\<lparr>AvailabilityZone = ''a'', InstanceType = ''m'', SpotPrice = ''1''\<rparr>,
      \<lparr>AvailabilityZone = ''a'', InstanceType = ''m'', SpotPrice = ''3''\<rparr>]"

definition historyDown :: "error + ec2_SpotPrice list" where
  "historyDown = Inl (errors_New ''RequestError'')"

text \<open>Three Prometheus servers: one that cannot be reached, one that has a series for
  every type, one that has a series for \<open>m\<close> and an empty vector for every other type.\<close>

definition promDown :: "string \<Rightarrow> time \<Rightarrow> error + model_Vector" where
  "promDown query ts = Inl (errors_New ''connection refused'')"

definition promFull :: "string \<Rightarrow> time \<Rightarrow> error + model_Vector" where
  "promFull query ts = Inr \<lparr>Vector_String = ''{} => 5'', Value_Strings = [''5'']\<rparr>"

definition promOnlyM :: "string \<Rightarrow> time \<Rightarrow> error + model_Vector" where
  "promOnlyM query ts =
     (if query = promQuery ''eu'' ''m'' ''a|b''
      then Inr \<lparr>Vector_String = ''{} => 5'', Value_Strings = [''5'']\<rparr>
      else Inr \<lparr>Vector_String = [], Value_Strings = []\<rparr>)"

text \<open>A JSON decoder and an engine for the endpoint: the body \<open>ok\<close> decodes to a request
  for one to three nodes, \<open>none\<close> to one for no node, \<open>min>max\<close> to one with more minimum
  than maximum nodes, anything else does not decode; the engine finds a layout when it
  may use one node at least.\<close>

definition exampleRequest :: "int \<Rightarrow> int \<Rightarrow> RecommendationRequest" where
  "exampleRequest lo hi =
     \<lparr>ZoneSet = [], TargetVCPU = 8, TargetMemory = 16, MinNodes = lo, MaxNodes = hi,
      OnDemandRatio = 1 / 2\<rparr>"

definition exampleDecode :: "string \<Rightarrow> error + RecommendationRequest" where
  "exampleDecode requestBody =
     (if requestBody = ''ok'' then Inr (exampleRequest 1 3)
      else if requestBody = ''none'' then Inr (exampleRequest 0 0)
      else if requestBody = ''min>max'' then Inr (exampleRequest 5 3)
      else Inl (errors_New ''unexpected end of JSON input''))"

definition exampleEngine :: "string \<Rightarrow> string \<Rightarrow> RecommendationRequest \<Rightarrow> error + nat" where
  "exampleEngine provider region req =
     (if MaxNodes req < 1 then Inl (errors_New ''could not find any VMs to recommend'')
      else Inr (nat (MaxNodes req)))"

section \<open>Properties\<close>

subsection \<open>Sequencing and the steps of the candidate lookup\<close>

lemma andThen_Inl [simp]: "andThen (cs, Inl err) f = (cs, Inl err)"
  by (simp add: andThen_def)

lemma andThen_Inr [simp]: "andThen (cs, Inr x) f = (cs @ fst (f x), snd (f x))"
  by (simp add: andThen_def)

lemma findVms_steps:
  assumes "collectVms e region cpuUnits [] = (c1, Inr vms)"
    and "resolveZones e region zones = (c2, Inr zs)"
  shows "findVmsWithCpuUnits e region zones cpuUnits =
           (c1 @ c2 @ fst (resolveSpotPrices e region zs (map Type vms)),
            case snd (resolveSpotPrices e region zs (map Type vms)) of
              Inl err \<Rightarrow> Inl err
            | Inr avg \<Rightarrow> Inr (map (setAvgPrice avg) vms))"
  using assms by (simp add: findVmsWithCpuUnits_def andThen_def Let_def split: sum.splits)

lemma findVms_Inr:
  assumes "snd (findVmsWithCpuUnits e region zones cpuUnits) = Inr vms"
  shows "\<exists>vms0 avg. snd (collectVms e region cpuUnits []) = Inr vms0 \<and>
           vms = map (setAvgPrice avg) vms0"
  using assms
  by (auto simp: findVmsWithCpuUnits_def andThen_def Let_def split: sum.splits)

lemma resolve_without_prometheus:
  "prometheus e = None \<Longrightarrow>
     resolveSpotPrices e region zs its = getCurrentSpotPrices e region zs its"
  by (simp add: resolveSpotPrices_def andThen_def split: sum.splits)

lemma resolve_prometheus_failed:
  "prometheus e = Some api \<Longrightarrow>
   snd (getSpotPriceAvgsFromPrometheus e api region zs its) = Inl err \<Longrightarrow>
     resolveSpotPrices e region zs its =
       (fst (getSpotPriceAvgsFromPrometheus e api region zs its)
          @ fst (getCurrentSpotPrices e region zs its),
        snd (getCurrentSpotPrices e region zs its))"
  by (cases "getSpotPriceAvgsFromPrometheus e api region zs its")
     (simp add: resolveSpotPrices_def)

lemma resolve_prometheus_ok:
  "prometheus e = Some api \<Longrightarrow>
   snd (getSpotPriceAvgsFromPrometheus e api region zs its) = Inr avg \<Longrightarrow>
     resolveSpotPrices e region zs its =
       (fst (getSpotPriceAvgsFromPrometheus e api region zs its), Inr avg)"
  by (cases "getSpotPriceAvgsFromPrometheus e api region zs its")
     (simp add: resolveSpotPrices_def)

lemma history_call:
  "fst (getCurrentSpotPrices e region zs its) =
     [DescribeSpotPriceHistory_call region (historyInput e its)]"
  by (simp add: getCurrentSpotPrices_def Let_def split: sum.splits)

lemma setAvgPrice_keeps [simp]:
  "Type (setAvgPrice avg vm) = Type vm" "Cpus (setAvgPrice avg vm) = Cpus vm"
  by (simp_all add: setAvgPrice_def split: option.splits)

lemma setAvgPrice_None: "avg (Type vm) = None \<Longrightarrow> setAvgPrice avg vm = vm"
  by (simp add: setAvgPrice_def)

subsection \<open>The loop over the vCPU values\<close>

lemma collectVms_no_pricing:
  "\<not> (\<exists>c\<in>set (fst (collectVms e region cpus acc)). isPricingCall c)"
  by (induction cpus arbitrary: acc) (auto split: sum.splits)

lemma collectVms_AvgPrice:
  "snd (collectVms e region cpus acc) = Inr vms \<Longrightarrow> \<forall>vm\<in>set acc. AvgPrice vm = 99 \<Longrightarrow>
     \<forall>vm\<in>set vms. AvgPrice vm = 99"
proof (induction cpus arbitrary: acc)
  case Nil
  then show ?case by simp
next
  case (Cons cpu cpus)
  from Cons.prems(1) obtain ec2Vms where
    r: "snd (collectVms e region cpus (acc @ map newVm ec2Vms)) = Inr vms"
    by (auto split: sum.splits)
  from Cons.prems(2) have "\<forall>vm\<in>set (acc @ map newVm ec2Vms). AvgPrice vm = 99"
    by (auto simp: newVm_def)
  with r show ?case by (rule Cons.IH)
qed

lemma collectVms_Cpus:
  "GetVmsWithCpu e = productInfo_GetVmsWithCpu catalog \<Longrightarrow>
   snd (collectVms e region cpus acc) = Inr vms \<Longrightarrow>
     Cpus ` set vms \<subseteq> Cpus ` set acc \<union> set cpus"
proof (induction cpus arbitrary: acc)
  case Nil
  then show ?case by simp
next
  case (Cons cpu cpus)
  from Cons.prems obtain ec2Vms where
    g: "GetVmsWithCpu e region cpu = Inr ec2Vms"
    and r: "snd (collectVms e region cpus (acc @ map newVm ec2Vms)) = Inr vms"
    by (auto split: sum.splits)
  from g Cons.prems(1) have "\<forall>v\<in>set ec2Vms. Ec2Vm_Cpus v = cpu"
    by (auto simp: productInfo_GetVmsWithCpu_def split: sum.splits)
  then have b: "Cpus ` set (acc @ map newVm ec2Vms) \<subseteq> Cpus ` set acc \<union> {cpu}"
    by (auto simp: newVm_def)
  have a: "Cpus ` set vms \<subseteq> Cpus ` set (acc @ map newVm ec2Vms) \<union> set cpus"
    using Cons.prems(1) r by (rule Cons.IH)
  from a b have "Cpus ` set vms \<subseteq> Cpus ` set acc \<union> ({cpu} \<union> set cpus)"
    by blast
  then show ?case by simp
qed

subsection \<open>The loop over the Prometheus queries\<close>

text \<open>The queries sent are those for the instance types up to and including the first
  one whose answer is not accepted; the loop returns a map exactly when every answer is
  accepted, and the map then holds, for each type, the parsed first sample.\<close>

lemma promLoop_calls:
  "fst (promLoop e api region zones its m) =
     map (queryOf e region zones)
       (takeWhile (accepted e api region zones) its
          @ take 1 (dropWhile (accepted e api region zones) its))"
  by (induction its arbitrary: m)
     (auto simp: accepted_def queryOf_def Let_def split: sum.splits list.splits)

lemma promLoop_ok:
  "(\<exists>m'. snd (promLoop e api region zones its m) = Inr m') \<longleftrightarrow>
     (\<forall>it\<in>set its. accepted e api region zones it)"
  by (induction its arbitrary: m)
     (auto simp: accepted_def Let_def split: sum.splits list.splits)


subsection \<open>The loops over the price history\<close>
















subsection \<open>The example registries, evaluated\<close>

lemmas example_defs =
  exampleRegistry_def exampleCatalog_def exampleZones_def exampleVms_def
  newVm_def parseNumeral_def samplesBothZones_def samplesOneZoneTwice_def historyDown_def
  promDown_def promFull_def promOnlyM_def

lemma example_collectVms:
  "collectVms (exampleRegistry prom history) ''eu'' [2, 4] [] =
     ([GetVmsWithCpu_call ''eu'' 2, GetVmsWithCpu_call ''eu'' 4], Inr exampleVms)"
  by (simp add: example_defs)

lemma example_types: "map Type exampleVms = [''m'', ''c'']"
  by (simp add: exampleVms_def)

lemma example_zones_given:
  "resolveZones (exampleRegistry prom history) ''eu'' [''a'', ''b''] = ([], Inr [''a'', ''b''])"
  by (simp add: resolveZones_def)


lemma example_direct_both_zones:
  "snd (getCurrentSpotPrices (exampleRegistry prom (Inr samplesBothZones)) ''eu''
          [''a'', ''b''] [''m'', ''c'']) = Inr [''m'' \<mapsto> 2]"
  by (simp add: getCurrentSpotPrices_def historyInput_def zoneAvgs_def sumPrice_def
      example_defs fun_eq_iff)

subsection \<open>Fallback to the direct history\<close>

text \<open>C1: when a Prometheus client is configured and, for one of the instance types
  asked for, the query returns an error (the backend is unreachable), or a vector that
  renders as the empty text (no data), or a vector without a sample (an empty series),
  then the prices of \<^verbatim>\<open>findVmsWithCpuUnits\<close> are those of the direct spot-price history
  alone, which is asked for the whole list of instance types: the result is what
  \<^verbatim>\<open>getCurrentSpotPrices\<close> gives for all the types, with nothing kept from the
  Prometheus answers. The first two premises say that the catalogue gave the candidates
  \<open>vms\<close> and that the zones in force are \<open>zs\<close>.\<close>

theorem prometheus_failure_uses_direct_history_for_all:
  assumes "collectVms e region cpuUnits [] = (c1, Inr vms)"
    and "resolveZones e region zones = (c2, Inr zs)"
    and "prometheus e = Some api"
    and "it \<in> set (map Type vms)"
    and "case api (promQuery region it (Join zs ''|'')) (Now e) of
           Inl err \<Rightarrow> True
         | Inr result \<Rightarrow> Vector_String result = [] \<or> Value_Strings result = []"
  shows "snd (findVmsWithCpuUnits e region zones cpuUnits) =
           (case snd (getCurrentSpotPrices e region zs (map Type vms)) of
              Inl err \<Rightarrow> Inl err
            | Inr avg \<Rightarrow> Inr (map (setAvgPrice avg) vms))
         \<and> DescribeSpotPriceHistory_call region (historyInput e (map Type vms))
             \<in> set (fst (findVmsWithCpuUnits e region zones cpuUnits))
         \<and> InstanceTypes (historyInput e (map Type vms)) = map Type vms"
proof -
  let ?its = "map Type vms"
  have "\<not> accepted e api region zs it"
    using assms(5) by (auto simp: accepted_def split: sum.splits)
  with assms(4) have "\<not> (\<forall>it\<in>set ?its. accepted e api region zs it)"
    by blast
  then have "\<nexists>m'. snd (promLoop e api region zs ?its Map.empty) = Inr m'"
    using promLoop_ok [of e api region zs ?its Map.empty] by blast
  then obtain err where "snd (getSpotPriceAvgsFromPrometheus e api region zs ?its) = Inl err"
    unfolding getSpotPriceAvgsFromPrometheus_def
    by (cases "snd (promLoop e api region zs ?its Map.empty)") auto
  from resolve_prometheus_failed [OF assms(3) this]
  have r: "resolveSpotPrices e region zs ?its =
             (fst (getSpotPriceAvgsFromPrometheus e api region zs ?its)
                @ fst (getCurrentSpotPrices e region zs ?its),
              snd (getCurrentSpotPrices e region zs ?its))" .
  show ?thesis
    by (simp add: findVms_steps [OF assms(1,2)] r history_call historyInput_def)
qed

text \<open>Prometheus has a price of 5 for \<open>m\<close> and an empty vector for \<open>c\<close>: the price of
  \<open>m\<close> returned is the 2 of the direct history, not the 5.\<close>

theorem prometheus_failure_uses_direct_history_for_all_witness:
  "promOnlyM (promQuery ''eu'' ''c'' ''a|b'') 0 = Inr \<lparr>Vector_String = [], Value_Strings = []\<rparr>
   \<and> promOnlyM (promQuery ''eu'' ''m'' ''a|b'') 0
       = Inr \<lparr>Vector_String = ''{} => 5'', Value_Strings = [''5'']\<rparr>
   \<and> snd (findVmsWithCpuUnits (exampleRegistry (Some promOnlyM) (Inr samplesBothZones))
            ''eu'' [''a'', ''b''] [2, 4])
       = Inr [\<lparr>Type = ''m'', OnDemandPrice = 7, AvgPrice = 2, Cpus = 2, Mem = 8, Gpus = 0\<rparr>,
              \<lparr>Type = ''c'', OnDemandPrice = 9, AvgPrice = 99, Cpus = 4, Mem = 8, Gpus = 0\<rparr>]"
proof -
  let ?e = "exampleRegistry (Some promOnlyM) (Inr samplesBothZones)"
  have p: "prometheus ?e = Some promOnlyM"
    by (simp add: exampleRegistry_def)
  have n: "Now ?e = 0"
    by (simp add: exampleRegistry_def)
  have c: "promOnlyM (promQuery ''eu'' ''c'' ''a|b'') 0
             = Inr \<lparr>Vector_String = [], Value_Strings = []\<rparr>"
    by (simp add: promOnlyM_def promQuery_def)
  have m: "promOnlyM (promQuery ''eu'' ''m'' ''a|b'') 0
             = Inr \<lparr>Vector_String = ''{} => 5'', Value_Strings = [''5'']\<rparr>"
    by (simp add: promOnlyM_def)
  have i: "''c'' \<in> set (map Type exampleVms)"
    by (simp add: example_types)
  have f: "case promOnlyM (promQuery ''eu'' ''c'' (Join [''a'', ''b''] ''|'')) (Now ?e) of
             Inl err \<Rightarrow> True
           | Inr result \<Rightarrow> Vector_String result = [] \<or> Value_Strings result = []"
    by (simp add: n c)
  from prometheus_failure_uses_direct_history_for_all
         [OF example_collectVms example_zones_given p i f] c m
  show ?thesis
    by (simp add: example_types example_direct_both_zones setAvgPrice_def exampleVms_def)
qed

subsection \<open>Which types the direct history prices\<close>

text \<open>C2: the claim is that the direct history gives an instance type an averaged price
  only when the type has a price sample in every zone asked for, and leaves out a type
  that lacks a sample in one of them. The guard of line 208, whose comment on line 209
  says as much, compares the number of samples gathered for the type with the number of
  zones and never reads the zone of a sample. Here the zones \<open>a\<close> and \<open>b\<close> are asked
  for and the provider's answer holds two samples of \<open>m\<close>, both in zone \<open>a\<close>: the code
  gives \<open>m\<close> the average 2 although \<open>m\<close> has no sample in \<open>b\<close>.\<close>

theorem averaged_without_sample_in_every_zone:
  "DescribeSpotPriceHistory (exampleRegistry None (Inr samplesOneZoneTwice)) ''eu''
       (historyInput (exampleRegistry None (Inr samplesOneZoneTwice)) [''m''])
     = Inr samplesOneZoneTwice
   \<and> map AvailabilityZone samplesOneZoneTwice = [''a'', ''a'']
   \<and> snd (getCurrentSpotPrices (exampleRegistry None (Inr samplesOneZoneTwice)) ''eu''
            [''a'', ''b''] [''m'']) = Inr [''m'' \<mapsto> 2]"
  by (simp add: getCurrentSpotPrices_def historyInput_def zoneAvgs_def sumPrice_def
      example_defs fun_eq_iff)

subsection \<open>A type without a spot price\<close>

text \<open>C3, as the code has it: \<^verbatim>\<open>AvgPrice\<close> is a \<^verbatim>\<open>float64\<close> of the \<^verbatim>\<open>VirtualMachine\<close>,
  set to 99 when the machine is built (line 73) and overwritten only for a type that is
  a key of the price map in force (lines 124 to 128). So every virtual machine returned
  whose type has no price in that map carries the number 99 as its spot price; nothing
  in the value returned marks the price as absent.\<close>

theorem unresolved_spot_price_is_99:
  assumes "collectVms e region cpuUnits [] = (c1, Inr vms)"
    and "resolveZones e region zones = (c2, Inr zs)"
    and "resolveSpotPrices e region zs (map Type vms) = (c3, Inr avg)"
  shows "snd (findVmsWithCpuUnits e region zones cpuUnits) = Inr (map (setAvgPrice avg) vms)
         \<and> (\<forall>vm\<in>set (map (setAvgPrice avg) vms). avg (Type vm) = None \<longrightarrow> AvgPrice vm = 99)"
proof -
  from assms(1) have "\<forall>vm\<in>set vms. AvgPrice vm = 99"
    using collectVms_AvgPrice [of e region cpuUnits "[]" vms] by simp
  then have "\<forall>vm\<in>set (map (setAvgPrice avg) vms). avg (Type vm) = None \<longrightarrow> AvgPrice vm = 99"
    by (auto simp: setAvgPrice_None)
  then show ?thesis
    using assms(3) by (simp add: findVms_steps [OF assms(1,2)])
qed

theorem unresolved_spot_price_is_99_witness:
  "resolveSpotPrices (exampleRegistry None (Inr samplesBothZones)) ''eu'' [''a'', ''b'']
       [''m'', ''c'']
     = ([DescribeSpotPriceHistory_call ''eu''
           (historyInput (exampleRegistry None (Inr samplesBothZones)) [''m'', ''c''])],
        Inr [''m'' \<mapsto> 2])
   \<and> snd (findVmsWithCpuUnits (exampleRegistry None (Inr samplesBothZones))
            ''eu'' [''a'', ''b''] [2, 4])
       = Inr [\<lparr>Type = ''m'', OnDemandPrice = 7, AvgPrice = 2, Cpus = 2, Mem = 8, Gpus = 0\<rparr>,
              \<lparr>Type = ''c'', OnDemandPrice = 9, AvgPrice = 99, Cpus = 4, Mem = 8, Gpus = 0\<rparr>]"
proof -
  let ?e = "exampleRegistry None (Inr samplesBothZones)"
  have "prometheus ?e = None"
    by (simp add: exampleRegistry_def)
  then have r: "resolveSpotPrices ?e ''eu'' [''a'', ''b''] (map Type exampleVms)
      = ([DescribeSpotPriceHistory_call ''eu'' (historyInput ?e [''m'', ''c''])],
         Inr [''m'' \<mapsto> 2])"
    using example_direct_both_zones [of None] history_call [of ?e "''eu''" "[''a'', ''b'']" "[''m'', ''c'']"]
    by (simp add: resolve_without_prometheus example_types prod_eq_iff)
  from unresolved_spot_price_is_99 [OF example_collectVms example_zones_given r] r
  show ?thesis
    by (simp add: example_types setAvgPrice_def exampleVms_def)
qed

text \<open>No Prometheus client, and a history without a sample of \<open>c\<close>: \<open>c\<close> has a price
  from neither source, and the machine returned has the spot price 99.\<close>

theorem unresolved_spot_price_is_a_number:
  "prometheus (exampleRegistry None (Inr samplesBothZones)) = None
   \<and> (case snd (getCurrentSpotPrices (exampleRegistry None (Inr samplesBothZones)) ''eu''
                  [''a'', ''b''] [''c'']) of
         Inl err \<Rightarrow> Some 0
       | Inr avg \<Rightarrow> avg ''c'') = None
   \<and> snd (findVmsWithCpuUnits (exampleRegistry None (Inr samplesBothZones))
            ''eu'' [''a'', ''b''] [4])
       = Inr [\<lparr>Type = ''c'', OnDemandPrice = 9, AvgPrice = 99, Cpus = 4, Mem = 8, Gpus = 0\<rparr>]"
  by (simp add: findVmsWithCpuUnits_def resolveZones_def resolveSpotPrices_def
      getCurrentSpotPrices_def historyInput_def zoneAvgs_def sumPrice_def setAvgPrice_def
      example_defs)

subsection \<open>What the two price sources return\<close>




subsection \<open>Zones that are not given\<close>

text \<open>C5: when \<^verbatim>\<open>findVmsWithCpuUnits\<close> is called with no zones (nil or empty), it asks
  the provider for the availability zones of the region before any price is asked for.
  If that call fails, the lookup fails, with that error once the catalogue has given
  the candidates, and no call for prices is made (no Prometheus query, no spot-price
  history). If it succeeds, the prices are resolved for exactly the zones whose state is
  \<open>available\<close>, in the order of the provider's answer.\<close>

theorem missing_zones_are_discovered_first:
  "(\<forall>err. DescribeAvailabilityZones e region = Inl err \<longrightarrow>
      (\<exists>err'. snd (findVmsWithCpuUnits e region [] cpuUnits) = Inl err')
      \<and> \<not> (\<exists>c\<in>set (fst (findVmsWithCpuUnits e region [] cpuUnits)). isPricingCall c)
      \<and> (\<forall>c1 vms. collectVms e region cpuUnits [] = (c1, Inr vms) \<longrightarrow>
            findVmsWithCpuUnits e region [] cpuUnits =
              (c1 @ [DescribeAvailabilityZones_call region], Inl err)))
   \<and> (\<forall>azs c1 vms. DescribeAvailabilityZones e region = Inr azs \<longrightarrow>
        collectVms e region cpuUnits [] = (c1, Inr vms) \<longrightarrow>
        findVmsWithCpuUnits e region [] cpuUnits =
          (let zs = map ZoneName (filter (\<lambda>az. State az = ''available'') azs);
               prices = resolveSpotPrices e region zs (map Type vms)
           in (c1 @ [DescribeAvailabilityZones_call region] @ fst prices,
               case snd prices of
                 Inl err \<Rightarrow> Inl err
               | Inr avg \<Rightarrow> Inr (map (setAvgPrice avg) vms))))"
proof (intro conjI allI impI)
  fix err assume d: "DescribeAvailabilityZones e region = Inl err"
  then have z: "resolveZones e region [] = ([DescribeAvailabilityZones_call region], Inl err)"
    by (simp add: resolveZones_def)
  obtain c1 r where c: "collectVms e region cpuUnits [] = (c1, r)"
    by (cases "collectVms e region cpuUnits []")
  have n: "\<not> (\<exists>c\<in>set c1. isPricingCall c)"
    using collectVms_no_pricing [of e region cpuUnits "[]"] c by simp
  show "\<exists>err'. snd (findVmsWithCpuUnits e region [] cpuUnits) = Inl err'"
    using c z by (cases r) (simp_all add: findVmsWithCpuUnits_def Let_def)
  show "\<not> (\<exists>c\<in>set (fst (findVmsWithCpuUnits e region [] cpuUnits)). isPricingCall c)"
    using c z n by (cases r) (simp_all add: findVmsWithCpuUnits_def Let_def)
  fix c1' vms assume "collectVms e region cpuUnits [] = (c1', Inr vms)"
  then show "findVmsWithCpuUnits e region [] cpuUnits =
               (c1' @ [DescribeAvailabilityZones_call region], Inl err)"
    using z by (simp add: findVmsWithCpuUnits_def Let_def)
next
  fix azs c1 vms
  assume d: "DescribeAvailabilityZones e region = Inr azs"
    and c: "collectVms e region cpuUnits [] = (c1, Inr vms)"
  from d have z: "resolveZones e region [] =
      ([DescribeAvailabilityZones_call region],
       Inr (map ZoneName (filter (\<lambda>az. State az = ''available'') azs)))"
    by (simp add: resolveZones_def availableZones_def)
  show "findVmsWithCpuUnits e region [] cpuUnits =
          (let zs = map ZoneName (filter (\<lambda>az. State az = ''available'') azs);
               prices = resolveSpotPrices e region zs (map Type vms)
           in (c1 @ [DescribeAvailabilityZones_call region] @ fst prices,
               case snd prices of
                 Inl err \<Rightarrow> Inl err
               | Inr avg \<Rightarrow> Inr (map (setAvgPrice avg) vms)))"
    by (simp add: findVms_steps [OF c z] Let_def)
qed

text \<open>With the zones \<open>a\<close> (available) and \<open>b\<close> (impaired), the prices are those of zone
  \<open>a\<close> alone: \<open>m\<close> costs 1 there. In the account that may not list the zones the lookup
  ends with that error after the two catalogue calls and the zone call.\<close>

theorem missing_zones_are_discovered_first_witness:
  "DescribeAvailabilityZones (exampleRegistry None (Inr samplesBothZones)) ''eu''
     = Inr exampleZones
   \<and> findVmsWithCpuUnits (exampleRegistry None (Inr samplesBothZones)) ''eu'' [] [2, 4]
     = ([GetVmsWithCpu_call ''eu'' 2, GetVmsWithCpu_call ''eu'' 4,
         DescribeAvailabilityZones_call ''eu'',
         DescribeSpotPriceHistory_call ''eu''
           \<lparr>StartTime = 0, EndTime = None, ProductDescriptions = [''Linux/UNIX''],
            InstanceTypes = [''m'', ''c'']\<rparr>],
        Inr [\<lparr>Type = ''m'', OnDemandPrice = 7, AvgPrice = 1, Cpus = 2, Mem = 8, Gpus = 0\<rparr>,
             \<lparr>Type = ''c'', OnDemandPrice = 9, AvgPrice = 99, Cpus = 4, Mem = 8, Gpus = 0\<rparr>])
   \<and> DescribeAvailabilityZones registryWithoutZones ''eu''
     = Inl (errors_New ''UnauthorizedOperation'')
   \<and> findVmsWithCpuUnits registryWithoutZones ''eu'' [] [2, 4]
     = ([GetVmsWithCpu_call ''eu'' 2, GetVmsWithCpu_call ''eu'' 4,
         DescribeAvailabilityZones_call ''eu''],
        Inl (errors_New ''UnauthorizedOperation''))"
proof -
  let ?e = "exampleRegistry None (Inr samplesBothZones)"
  have d: "DescribeAvailabilityZones ?e ''eu'' = Inr exampleZones"
    by (simp add: exampleRegistry_def)
  have d': "DescribeAvailabilityZones registryWithoutZones ''eu''
              = Inl (errors_New ''UnauthorizedOperation'')"
    by (simp add: registryWithoutZones_def)
  have c': "collectVms registryWithoutZones ''eu'' [2, 4] [] =
              ([GetVmsWithCpu_call ''eu'' 2, GetVmsWithCpu_call ''eu'' 4], Inr exampleVms)"
    by (simp add: registryWithoutZones_def example_defs)
  have r: "resolveSpotPrices ?e ''eu'' [''a''] [''m'', ''c''] =
             ([DescribeSpotPriceHistory_call ''eu''
                 \<lparr>StartTime = 0, EndTime = None, ProductDescriptions = [''Linux/UNIX''],
                  InstanceTypes = [''m'', ''c'']\<rparr>],
              Inr [''m'' \<mapsto> 1])"
    by (simp add: resolveSpotPrices_def getCurrentSpotPrices_def historyInput_def zoneAvgs_def
        sumPrice_def example_defs fun_eq_iff)
  from missing_zones_are_discovered_first [of ?e "''eu''" "[2, 4]", THEN conjunct2,
          rule_format, OF d example_collectVms]
  have 1: "findVmsWithCpuUnits ?e ''eu'' [] [2, 4]
     = ([GetVmsWithCpu_call ''eu'' 2, GetVmsWithCpu_call ''eu'' 4,
         DescribeAvailabilityZones_call ''eu'',
         DescribeSpotPriceHistory_call ''eu''
           \<lparr>StartTime = 0, EndTime = None, ProductDescriptions = [''Linux/UNIX''],
            InstanceTypes = [''m'', ''c'']\<rparr>],
        Inr [\<lparr>Type = ''m'', OnDemandPrice = 7, AvgPrice = 1, Cpus = 2, Mem = 8, Gpus = 0\<rparr>,
             \<lparr>Type = ''c'', OnDemandPrice = 9, AvgPrice = 99, Cpus = 4, Mem = 8, Gpus = 0\<rparr>])"
    by (simp add: exampleZones_def example_types r setAvgPrice_def exampleVms_def)
  from missing_zones_are_discovered_first [of registryWithoutZones "''eu''" "[2, 4]",
          THEN conjunct1, rule_format, OF d', THEN conjunct2, THEN conjunct2, rule_format, OF c']
  have 2: "findVmsWithCpuUnits registryWithoutZones ''eu'' [] [2, 4]
     = ([GetVmsWithCpu_call ''eu'' 2, GetVmsWithCpu_call ''eu'' 4,
         DescribeAvailabilityZones_call ''eu''],
        Inl (errors_New ''UnauthorizedOperation''))"
    by simp
  from d 1 d' 2 show ?thesis
    by (intro conjI)
qed

subsection \<open>The vCPU values of the candidates\<close>

text \<open>C8: with the catalogue lookup \<^verbatim>\<open>GetVmsWithCpu\<close> as the specification describes
  it, every virtual machine that \<^verbatim>\<open>findVmsWithCpuUnits\<close> returns has a vCPU count equal
  to one of the vCPU values it was called with.\<close>

theorem returned_vms_have_requested_cpus:
  assumes "GetVmsWithCpu e = productInfo_GetVmsWithCpu catalog"
    and "snd (findVmsWithCpuUnits e region zones cpuUnits) = Inr vms"
  shows "\<forall>vm\<in>set vms. Cpus vm \<in> set cpuUnits"
proof -
  from findVms_Inr [OF assms(2)] obtain vms0 avg where
    c: "snd (collectVms e region cpuUnits []) = Inr vms0"
    and v: "vms = map (setAvgPrice avg) vms0"
    by blast
  from collectVms_Cpus [OF assms(1) c] have "Cpus ` set vms0 \<subseteq> set cpuUnits"
    by simp
  with v show ?thesis by auto
qed

theorem returned_vms_have_requested_cpus_witness:
  "GetVmsWithCpu (exampleRegistry None (Inr samplesBothZones))
     = productInfo_GetVmsWithCpu (\<lambda>region. Inr exampleCatalog)
   \<and> snd (findVmsWithCpuUnits (exampleRegistry None (Inr samplesBothZones))
            ''eu'' [''a'', ''b''] [4])
       = Inr [\<lparr>Type = ''c'', OnDemandPrice = 9, AvgPrice = 99, Cpus = 4, Mem = 8, Gpus = 0\<rparr>]
   \<and> Cpus \<lparr>Type = ''c'', OnDemandPrice = 9, AvgPrice = 99, Cpus = 4, Mem = 8, Gpus = 0\<rparr>
       \<in> set [4]"
proof -
  let ?e = "exampleRegistry None (Inr samplesBothZones)"
  have g: "GetVmsWithCpu ?e = productInfo_GetVmsWithCpu (\<lambda>region. Inr exampleCatalog)"
    by (simp add: exampleRegistry_def productInfo_GetVmsWithCpu_def fun_eq_iff)
  have f: "snd (findVmsWithCpuUnits ?e ''eu'' [''a'', ''b''] [4])
       = Inr [\<lparr>Type = ''c'', OnDemandPrice = 9, AvgPrice = 99, Cpus = 4, Mem = 8, Gpus = 0\<rparr>]"
    by (simp add: findVmsWithCpuUnits_def resolveZones_def resolveSpotPrices_def
        getCurrentSpotPrices_def historyInput_def zoneAvgs_def sumPrice_def setAvgPrice_def
        example_defs)
  from returned_vms_have_requested_cpus [OF g f] g f show ?thesis
    by simp
qed

subsection \<open>Both price sources failing\<close>

text \<open>C9: when no Prometheus client is configured or the Prometheus attempt returned
  an error, and the direct spot-price history then returns an error as well (the call
  itself or the parsing of one of its prices), \<^verbatim>\<open>findVmsWithCpuUnits\<close> returns that error
  and no list of virtual machines. The first two premises say that the lookup got as
  far as the prices: the catalogue gave the candidates \<open>vms\<close> and the zones in force
  are \<open>zs\<close>.\<close>

theorem both_price_sources_fail_no_vms:
  assumes "collectVms e region cpuUnits [] = (c1, Inr vms)"
    and "resolveZones e region zones = (c2, Inr zs)"
    and "prometheus e = None \<or>
         (\<exists>api err'. prometheus e = Some api \<and>
            snd (getSpotPriceAvgsFromPrometheus e api region zs (map Type vms)) = Inl err')"
    and "snd (getCurrentSpotPrices e region zs (map Type vms)) = Inl err"
  shows "snd (findVmsWithCpuUnits e region zones cpuUnits) = Inl err"
proof -
  have "snd (resolveSpotPrices e region zs (map Type vms)) = Inl err"
    using assms(3,4)
    by (auto simp: resolve_without_prometheus resolve_prometheus_failed)
  then show ?thesis
    by (simp add: findVms_steps [OF assms(1,2)])
qed

theorem both_price_sources_fail_no_vms_witness:
  "prometheus (exampleRegistry (Some promDown) historyDown) = Some promDown
   \<and> snd (getSpotPriceAvgsFromPrometheus (exampleRegistry (Some promDown) historyDown)
             promDown ''eu'' [''a'', ''b''] [''m'', ''c''])
       = Inl (errors_New ''connection refused'')
   \<and> snd (getCurrentSpotPrices (exampleRegistry (Some promDown) historyDown)
             ''eu'' [''a'', ''b''] [''m'', ''c''])
       = Inl (errors_New ''RequestError'')
   \<and> snd (findVmsWithCpuUnits (exampleRegistry (Some promDown) historyDown)
             ''eu'' [''a'', ''b''] [2, 4])
       = Inl (errors_New ''RequestError'')"
proof -
  let ?e = "exampleRegistry (Some promDown) historyDown"
  have p: "prometheus ?e = Some promDown"
    by (simp add: exampleRegistry_def)
  have q: "snd (getSpotPriceAvgsFromPrometheus ?e promDown ''eu'' [''a'', ''b'']
                  (map Type exampleVms)) = Inl (errors_New ''connection refused'')"
    by (simp add: example_types getSpotPriceAvgsFromPrometheus_def promDown_def)
  have h: "snd (getCurrentSpotPrices ?e ''eu'' [''a'', ''b''] (map Type exampleVms))
             = Inl (errors_New ''RequestError'')"
    by (simp add: getCurrentSpotPrices_def exampleRegistry_def historyDown_def)
  from p q have pq: "prometheus ?e = None \<or>
         (\<exists>api err'. prometheus ?e = Some api \<and>
            snd (getSpotPriceAvgsFromPrometheus ?e api ''eu'' [''a'', ''b'']
                   (map Type exampleVms)) = Inl err')"
    by blast
  from both_price_sources_fail_no_vms [OF example_collectVms example_zones_given pq h] p q h
  show ?thesis by (simp add: example_types)
qed

subsection \<open>How the Prometheus queries are sent\<close>

text \<open>C10, as the code has it: \<^verbatim>\<open>getSpotPriceAvgsFromPrometheus\<close> sends its queries one
  after the other, in the order of the instance types, each one after the answer to the
  one before it was accepted, and sends none after the first answer that is not
  accepted. So it sends exactly one query for each instance type when every answer is
  accepted, and fewer when one is not. Every query is sent with the background context,
  which has no deadline.\<close>

theorem prometheus_queries_are_sequential:
  "fst (getSpotPriceAvgsFromPrometheus e api region zones its) =
     map (queryOf e region zones)
       (takeWhile (accepted e api region zones) its
          @ take 1 (dropWhile (accepted e api region zones) its))
   \<and> ((\<forall>it\<in>set its. accepted e api region zones it) \<longrightarrow>
         fst (getSpotPriceAvgsFromPrometheus e api region zones its) =
           map (queryOf e region zones) its
         \<and> (\<exists>avg. snd (getSpotPriceAvgsFromPrometheus e api region zones its) = Inr avg))
   \<and> (\<not> (\<forall>it\<in>set its. accepted e api region zones it) \<longrightarrow>
         (\<exists>err. snd (getSpotPriceAvgsFromPrometheus e api region zones its) = Inl err))
   \<and> (\<forall>it. \<exists>query. queryOf e region zones it = Query_call Background query (Now e))
   \<and> Deadline Background = None"
proof -
  let ?r = "getSpotPriceAvgsFromPrometheus e api region zones its"
  have ok: "(\<exists>avg. snd ?r = Inr avg) \<longleftrightarrow> (\<forall>it\<in>set its. accepted e api region zones it)"
    unfolding getSpotPriceAvgsFromPrometheus_def by (rule promLoop_ok)
  have calls: "fst ?r = map (queryOf e region zones)
       (takeWhile (accepted e api region zones) its
          @ take 1 (dropWhile (accepted e api region zones) its))"
    unfolding getSpotPriceAvgsFromPrometheus_def by (rule promLoop_calls)
  have all: "fst ?r = map (queryOf e region zones) its"
    if "\<forall>it\<in>set its. accepted e api region zones it"
  proof -
    from that have t: "takeWhile (accepted e api region zones) its = its"
      and d: "dropWhile (accepted e api region zones) its = []"
      by simp_all
    show ?thesis unfolding calls t d by simp
  qed
  have bad: "\<not> (\<forall>it\<in>set its. accepted e api region zones it) \<Longrightarrow> \<exists>err. snd ?r = Inl err"
    using ok by (cases "snd ?r") auto
  show ?thesis
    using ok calls all bad by (simp add: queryOf_def)
qed

theorem prometheus_queries_are_sequential_witness:
  "accepted (exampleRegistry (Some promFull) historyDown) promFull ''eu'' [''a'', ''b''] ''m''
   \<and> accepted (exampleRegistry (Some promFull) historyDown) promFull ''eu'' [''a'', ''b''] ''c''
   \<and> fst (getSpotPriceAvgsFromPrometheus (exampleRegistry (Some promFull) historyDown)
            promFull ''eu'' [''a'', ''b''] [''m'', ''c''])
       = [queryOf (exampleRegistry (Some promFull) historyDown) ''eu'' [''a'', ''b''] ''m'',
          queryOf (exampleRegistry (Some promFull) historyDown) ''eu'' [''a'', ''b''] ''c'']
   \<and> (\<exists>avg. snd (getSpotPriceAvgsFromPrometheus (exampleRegistry (Some promFull) historyDown)
                    promFull ''eu'' [''a'', ''b''] [''m'', ''c'']) = Inr avg)"
proof -
  let ?e = "exampleRegistry (Some promFull) historyDown"
  have m: "accepted ?e promFull ''eu'' [''a'', ''b''] ''m''"
    and c: "accepted ?e promFull ''eu'' [''a'', ''b''] ''c''"
    by (simp_all add: accepted_def example_defs)
  then have a: "\<forall>it\<in>set [''m'', ''c'']. accepted ?e promFull ''eu'' [''a'', ''b''] it"
    by simp
  from prometheus_queries_are_sequential
         [of ?e promFull "''eu''" "[''a'', ''b'']" "[''m'', ''c'']",
          THEN conjunct2, THEN conjunct1, THEN mp, OF a] m c
  show ?thesis by simp
qed

text \<open>Prometheus cannot be reached and two instance types are asked for: one query is
  sent, the one for \<open>m\<close>, and none for \<open>c\<close>.\<close>

theorem no_query_after_a_failed_one:
  "fst (getSpotPriceAvgsFromPrometheus (exampleRegistry (Some promDown) historyDown)
          promDown ''eu'' [''a'', ''b''] [''m'', ''c''])
     = [queryOf (exampleRegistry (Some promDown) historyDown) ''eu'' [''a'', ''b''] ''m'']
   \<and> queryOf (exampleRegistry (Some promDown) historyDown) ''eu'' [''a'', ''b''] ''c''
       \<notin> set (fst (getSpotPriceAvgsFromPrometheus (exampleRegistry (Some promDown) historyDown)
                      promDown ''eu'' [''a'', ''b''] [''m'', ''c'']))"
  by (simp add: getSpotPriceAvgsFromPrometheus_def queryOf_def promQuery_def example_defs)

subsection \<open>The endpoint\<close>

text \<open>C6: when the body of a request does not bind (\<^verbatim>\<open>c.BindJSON\<close> returns an error),
  \<^verbatim>\<open>recommendClusterSetup\<close> answers with the status 400, a client error, and a body whose
  key \<open>code\<close> holds the kind \<open>bad_params\<close> and whose key \<open>message\<close> holds a text for the
  reader, and it does not call the engine. When the body binds and the engine returns
  an error, the answer has the status 500, a server error.\<close>

theorem endpoint_error_statuses:
  "(\<forall>err. BindJSON provider region requestBody = Inl err \<longrightarrow>
      fst (recommendClusterSetup BindJSON RecommendCluster provider region requestBody) = []
      \<and> status (snd (recommendClusterSetup BindJSON RecommendCluster provider region requestBody))
          = 400
      \<and> field (content (snd (recommendClusterSetup BindJSON RecommendCluster provider region
                                requestBody))) ''code''
          = Some (JString ''bad_params'')
      \<and> field (content (snd (recommendClusterSetup BindJSON RecommendCluster provider region
                                requestBody))) ''message''
          = Some (JString ''invalid zone(s) or network performance''))
   \<and> (\<forall>req err. BindJSON provider region requestBody = Inr req \<longrightarrow>
        RecommendCluster provider region req = Inl err \<longrightarrow>
        status (snd (recommendClusterSetup BindJSON RecommendCluster provider region requestBody))
          = 500)"
  by (simp add: recommendClusterSetup_def StatusBadRequest_def StatusInternalServerError_def)

theorem endpoint_error_statuses_witness:
  "exampleDecode ''{'' = Inl (errors_New ''unexpected end of JSON input'')
   \<and> fst (recommendClusterSetup (\<lambda>provider region. exampleDecode) exampleEngine
            ''ec2'' ''eu'' ''{'') = []
   \<and> status (snd (recommendClusterSetup (\<lambda>provider region. exampleDecode) exampleEngine
                    ''ec2'' ''eu'' ''{'')) = 400
   \<and> exampleDecode ''none'' = Inr (exampleRequest 0 0)
   \<and> exampleEngine ''ec2'' ''eu'' (exampleRequest 0 0)
       = Inl (errors_New ''could not find any VMs to recommend'')
   \<and> status (snd (recommendClusterSetup (\<lambda>provider region. exampleDecode) exampleEngine
                    ''ec2'' ''eu'' ''none'')) = 500"
proof -
  have b: "exampleDecode ''{'' = Inl (errors_New ''unexpected end of JSON input'')"
    and n: "exampleDecode ''none'' = Inr (exampleRequest 0 0)"
    by (simp_all add: exampleDecode_def)
  have g: "exampleEngine ''ec2'' ''eu'' (exampleRequest 0 0)
             = Inl (errors_New ''could not find any VMs to recommend'')"
    by (simp add: exampleEngine_def exampleRequest_def)
  from endpoint_error_statuses
         [of "\<lambda>provider region. exampleDecode" "''ec2''" "''eu''" "''{''" exampleEngine,
          THEN conjunct1, rule_format, OF b]
       endpoint_error_statuses
         [of "\<lambda>provider region. exampleDecode" "''ec2''" "''eu''" "''none''" exampleEngine,
          THEN conjunct2, rule_format, OF n g]
       b n g
  show ?thesis by simp
qed

text \<open>C7: with the binding of the request as the specification describes it, a request
  whose minimum node count is greater than its maximum, or whose on-demand ratio is
  below 0 or above 1, is answered with the status 400 and the engine, which does all
  the work on prices, is not called.\<close>

theorem bound_violation_rejected_before_engine:
  assumes "decode requestBody = Inr req"
    and "MinNodes req > MaxNodes req \<or> OnDemandRatio req < 0 \<or> OnDemandRatio req > 1"
  shows "fst (recommendClusterSetup (BindJSON_validating decode) RecommendCluster
                provider region requestBody) = []
         \<and> status (snd (recommendClusterSetup (BindJSON_validating decode) RecommendCluster
                           provider region requestBody)) = StatusBadRequest"
  using assms
  by (simp add: recommendClusterSetup_def BindJSON_validating_def boundViolation_def)

theorem bound_violation_rejected_before_engine_witness:
  "exampleDecode ''min>max'' = Inr (exampleRequest 5 3)
   \<and> MinNodes (exampleRequest 5 3) > MaxNodes (exampleRequest 5 3)
   \<and> fst (recommendClusterSetup (BindJSON_validating exampleDecode) exampleEngine
            ''ec2'' ''eu'' ''min>max'') = []
   \<and> status (snd (recommendClusterSetup (BindJSON_validating exampleDecode) exampleEngine
                    ''ec2'' ''eu'' ''min>max'')) = 400"
proof -
  have d: "exampleDecode ''min>max'' = Inr (exampleRequest 5 3)"
    by (simp add: exampleDecode_def)
  have m: "MinNodes (exampleRequest 5 3) > MaxNodes (exampleRequest 5 3)"
    by (simp add: exampleRequest_def)
  then have v: "MinNodes (exampleRequest 5 3) > MaxNodes (exampleRequest 5 3)
      \<or> OnDemandRatio (exampleRequest 5 3) < 0 \<or> OnDemandRatio (exampleRequest 5 3) > 1"
    by simp
  from bound_violation_rejected_before_engine
         [where decode = exampleDecode and requestBody = "''min>max''"
            and RecommendCluster = exampleEngine and provider = "''ec2''" and region = "''eu''",
          OF d v] d m
  show ?thesis by (simp add: StatusBadRequest_def)
qed

end
